theory Spec2Isabelle
  imports Main
begin

section \<open>JavaScript values, promises and errors\<close>

text \<open>
  The file holds two variants of \<^verbatim>\<open>backend/server.js\<close>: one that translates and chains two
  answer providers, and one that keeps the text of an uploaded document in a session store.
  Both are embedded as functions. A call to an external collaborator (axios, the Groq SDK,
  pdf-parse, uuid) is a value the environment decides: each function takes the outcome of
  every call it may make as an argument, and the functions that talk to an answer provider
  return, beside their result, the list of requests they sent.

  Strings are \<^typ>\<open>string\<close>. The source only concatenates them, tests them for emptiness,
  lower-cases them and searches them for the ASCII word \<^verbatim>\<open>xref\<close>. The fields of a request
  body are strings or absent.
\<close>

text \<open>A thrown value: an \<^verbatim>\<open>Error\<close> whose \<^verbatim>\<open>message\<close> may be absent.\<close>

record js_error =
  message :: "string option"

text \<open>The outcome of an awaited promise.\<close>

datatype 'a promise = Resolved 'a | Rejected js_error

text \<open>What V8 throws on \<^verbatim>\<open>x.choices[0]\<close> or \<^verbatim>\<open>x.data.f\<close> when the object read is undefined.\<close>

definition TypeError :: "string \<Rightarrow> js_error" where
  "TypeError prop =
     \<lparr>message = Some (''Cannot read properties of undefined (reading '' @ [CHR 0x27] @ prop @ [CHR 0x27] @ '')'')\<rparr>"

text \<open>\<^verbatim>\<open>a || b\<close> where \<^verbatim>\<open>a\<close> is a string or undefined: the empty string is falsy too.\<close>

definition js_or :: "string option \<Rightarrow> string \<Rightarrow> string" where
  "js_or a b = (case a of None \<Rightarrow> b | Some s \<Rightarrow> if s = [] then b else s)"

text \<open>\<^verbatim>\<open>!x\<close> for a request field that is a string or absent.\<close>

definition js_not :: "string option \<Rightarrow> bool" where
  "js_not a = (case a of None \<Rightarrow> True | Some s \<Rightarrow> s = [])"

definition toLowerCase :: "string \<Rightarrow> string" where
  "toLowerCase s =
     map (\<lambda>c. case map_of (zip ''ABCDEFGHIJKLMNOPQRSTUVWXYZ'' ''abcdefghijklmnopqrstuvwxyz'') c of
                 Some l \<Rightarrow> l | None \<Rightarrow> c) s"

text \<open>\<^verbatim>\<open>s.includes(sub)\<close>: \<^verbatim>\<open>sub\<close> occurs in \<^verbatim>\<open>s\<close> at some offset.\<close>

fun includes_str :: "string \<Rightarrow> string \<Rightarrow> bool" where
  "includes_str [] sub = (sub = [])"
| "includes_str (c # cs) sub = (take (length sub) (c # cs) = sub \<or> includes_str cs sub)"

section \<open>Chat completions\<close>

record chat_message =
  role :: string
  content :: string

text \<open>
  The body of a chat completion. \<^verbatim>\<open>choices\<close> is \<open>None\<close> when the body has no such array;
  each choice is the \<^verbatim>\<open>content\<close> of its \<^verbatim>\<open>message\<close>, \<open>None\<close> when
  \<^verbatim>\<open>message\<close> or \<^verbatim>\<open>content\<close> is missing or null.
\<close>

record completion =
  choices :: "string option list option"

text \<open>A request sent to a provider: the model named and the messages.\<close>

datatype api_call =
  SarvamChat string "chat_message list"
| GroqChat string "chat_message list"

text \<open>\<^verbatim>\<open>c.choices[0]?.message?.content\<close>: a \<^verbatim>\<open>TypeError\<close> without \<^verbatim>\<open>choices\<close>, undefined
  when the array is empty.\<close>

definition first_content :: "completion \<Rightarrow> js_error + string option" where
  "first_content c =
     (case choices c of
        None \<Rightarrow> Inl (TypeError ''0'')
      | Some [] \<Rightarrow> Inr None
      | Some (x # _) \<Rightarrow> Inr x)"

section \<open>Translating variant: \<^verbatim>\<open>translateText\<close>, \<^verbatim>\<open>getSarvamChatResponse\<close>, \<^verbatim>\<open>getGroqAnalysis\<close>\<close>

text \<open>The body of a translation response; the axios response may carry no \<^verbatim>\<open>data\<close> at all.\<close>

record translate_data =
  translated_text :: "string option"

text \<open>
  \<^verbatim>\<open>translateText(text, targetLanguageCode, sourceLanguageCode)\<close>; \<open>post\<close> is the outcome
  of the \<^verbatim>\<open>axios.post\<close> to \<^verbatim>\<open>/translate\<close>, read only when the target is not English.
  The result is a sum so that a rejection of the returned promise would be \<open>Inl\<close>.
\<close>

definition translateText ::
  "string \<Rightarrow> string \<Rightarrow> string \<Rightarrow> translate_data option promise \<Rightarrow> js_error + string" where
  "translateText text targetLanguageCode sourceLanguageCode post =
     (if targetLanguageCode = ''en-IN'' then Inr text
      else
        (case post of
           Resolved response_data \<Rightarrow>
             (case response_data of
                None \<Rightarrow> Inr text
              | Some d \<Rightarrow> Inr (js_or (translated_text d) text))
         | Rejected error \<Rightarrow> Inr text))"

definition groq_apology :: string where
  "groq_apology = ''Sorry, I encountered an error while analyzing the document with the AI service.''"

text \<open>\<^verbatim>\<open>getGroqAnalysis(messages)\<close>; \<open>create\<close> is the outcome of
  \<^verbatim>\<open>groq.chat.completions.create\<close>.\<close>

definition getGroqAnalysis ::
  "chat_message list \<Rightarrow> completion promise \<Rightarrow> (js_error + string) \<times> api_call list" where
  "getGroqAnalysis messages create =
     ((case create of
         Resolved c \<Rightarrow>
           (case first_content c of
              Inr x \<Rightarrow> Inr (js_or x ''I was unable to analyze the document.'')
            | Inl error \<Rightarrow> Inr groq_apology)
       | Rejected error \<Rightarrow> Inr groq_apology),
      [GroqChat ''llama3-8b-8192'' messages])"

text \<open>
  \<^verbatim>\<open>getSarvamChatResponse(messages)\<close>; \<open>post\<close> is the outcome of the \<^verbatim>\<open>axios.post\<close>
  to \<^verbatim>\<open>/chat/completions\<close> (\<open>Resolved None\<close>: a response without \<^verbatim>\<open>data\<close>), \<open>create\<close>
  the outcome of the Groq call, made only in the \<^verbatim>\<open>catch\<close> block.
\<close>

definition getSarvamChatResponse ::
  "chat_message list \<Rightarrow> completion option promise \<Rightarrow> completion promise \<Rightarrow>
     (js_error + string) \<times> api_call list" where
  "getSarvamChatResponse messages post create =
     (let fallback = getGroqAnalysis messages create;
          sent = [SarvamChat ''sarvam-m'' messages]
      in case post of
           Resolved response_data \<Rightarrow>
             (case response_data of
                None \<Rightarrow> (fst fallback, sent @ snd fallback)
              | Some c \<Rightarrow>
                  (case first_content c of
                     Inr x \<Rightarrow> (Inr (js_or x ''I was unable to process your request.''), sent)
                   | Inl error \<Rightarrow> (fst fallback, sent @ snd fallback)))
         | Rejected error \<Rightarrow> (fst fallback, sent @ snd fallback))"

text \<open>The primary provider failed: the request was rejected or its body could not be read.\<close>

definition sarvam_failed :: "completion option promise \<Rightarrow> bool" where
  "sarvam_failed post =
     (case post of
        Rejected error \<Rightarrow> True
      | Resolved None \<Rightarrow> True
      | Resolved (Some c) \<Rightarrow> choices c = None)"

definition groq_failed :: "completion promise \<Rightarrow> bool" where
  "groq_failed create =
     (case create of Rejected error \<Rightarrow> True | Resolved c \<Rightarrow> choices c = None)"

text \<open>The answer the secondary provider sends: the content of its first choice, when it has
  one that is not empty.\<close>

definition groq_answer :: "completion promise \<Rightarrow> string option" where
  "groq_answer create =
     (case create of
        Rejected error \<Rightarrow> None
      | Resolved c \<Rightarrow>
          (case choices c of
             Some (Some a # _) \<Rightarrow> if a = [] then None else Some a
           | _ \<Rightarrow> None))"

text \<open>The translation collaborator failed or sent no translated text.\<close>

definition translation_failed :: "translate_data option promise \<Rightarrow> bool" where
  "translation_failed post =
     (case post of
        Rejected error \<Rightarrow> True
      | Resolved None \<Rightarrow> True
      | Resolved (Some d) \<Rightarrow> js_not (translated_text d))"

section \<open>Session variant: the document context store\<close>

text \<open>
  \<^verbatim>\<open>const documentContextStore = {}\<close> is a plain object: its own properties are the sessions,
  and a read of a name it does not own falls through to \<^verbatim>\<open>Object.prototype\<close>. The members
  of \<^verbatim>\<open>Object.prototype\<close> in Node are the twelve names below; each is a function, but
  \<^verbatim>\<open>__proto__\<close>, which reads as the prototype object itself.
\<close>

definition object_prototype_keys :: "string list" where
  "object_prototype_keys =
     [''constructor'', ''__defineGetter__'', ''__defineSetter__'', ''hasOwnProperty'',
      ''__lookupGetter__'', ''__lookupSetter__'', ''isPrototypeOf'', ''propertyIsEnumerable'',
      ''toString'', ''valueOf'', ''__proto__'', ''toLocaleString'']"

text \<open>What a read of the store yields: undefined, a stored text, or an inherited member.\<close>

datatype jsval = JUndefined | JString string | JInherited string

definition js_get :: "(string \<rightharpoonup> string) \<Rightarrow> string \<Rightarrow> jsval" where
  "js_get obj key =
     (case obj key of
        Some v \<Rightarrow> JString v
      | None \<Rightarrow> if key \<in> set object_prototype_keys then JInherited key else JUndefined)"

text \<open>\<^verbatim>\<open>obj[key] = v\<close> with a string \<^verbatim>\<open>v\<close>: the \<^verbatim>\<open>__proto__\<close> setter ignores a
  primitive, every other name becomes an own property.\<close>

definition js_set :: "(string \<rightharpoonup> string) \<Rightarrow> string \<Rightarrow> string \<Rightarrow> (string \<rightharpoonup> string)" where
  "js_set obj key v = (if key = ''__proto__'' then obj else obj(key \<mapsto> v))"

text \<open>\<^verbatim>\<open>delete obj[key]\<close>: removes an own property, and succeeds when there is none.\<close>

definition js_delete :: "(string \<rightharpoonup> string) \<Rightarrow> string \<Rightarrow> (string \<rightharpoonup> string)" where
  "js_delete obj key = obj(key := None)"

definition truthy :: "jsval \<Rightarrow> bool" where
  "truthy v = (case v of JUndefined \<Rightarrow> False | JString s \<Rightarrow> s \<noteq> [] | JInherited k \<Rightarrow> True)"

text \<open>The string a template literal puts in place of \<^verbatim>\<open>${v}\<close>.\<close>

definition js_to_string :: "jsval \<Rightarrow> string" where
  "js_to_string v =
     (case v of
        JUndefined \<Rightarrow> ''undefined''
      | JString s \<Rightarrow> s
      | JInherited k \<Rightarrow>
          if k = ''__proto__'' then ''[object Object]''
          else if k = ''constructor'' then ''function Object() { [native code] }''
          else ''function '' @ k @ ''() { [native code] }'')"

text \<open>
  The server's state: the store, the timers \<^verbatim>\<open>setTimeout\<close> has pending (the instant each
  is due, in milliseconds, and the session its callback deletes) and the clock.
\<close>

record server_state =
  documentContextStore :: "string \<rightharpoonup> string"
  timers :: "(nat \<times> string) list"
  now :: nat

record reply =
  status :: nat
  body :: "(string \<times> string) list"

record pdf_data =
  pdf_text :: string

definition nl :: string where
  "nl = [CHR 0x0A]"

definition initialAnalysisSystemPrompt :: string where
  \<open>initialAnalysisSystemPrompt = nl @
''You are LawWise, a helpful legal assistant chatbot. Your purpose is to help non-lawyers understand legal documents.'' @ nl @
''You will be given the text extracted from a user's document.'' @ nl @
''Your instructions are:'' @ nl @
''1. Identify what type of document it is (e.g., rental agreement, employment contract, NDA).'' @ nl @
''2. Provide a brief, easy-to-understand summary of the document's main purpose.'' @ nl @
''3. Highlight 2-3 of the most important clauses, rights, or obligations for the user in a bulleted list.'' @ nl @
''4. Ask the user what specific questions they have about the document.'' @ nl @
''5. IMPORTANT: Always include this disclaimer at the very end: "Disclaimer: I am an AI assistant and this is not legal advice. Please consult with a qualified legal professional."'' @ nl\<close>

definition followUpSystemPrompt :: string where
  \<open>followUpSystemPrompt = nl @
''You are LawWise, a helpful legal assistant. The user has already uploaded a document, and you have its full text. Now, the user is asking a follow-up question about it.'' @ nl @
''Your task is to answer the user's question based *only* on the provided document context.'' @ nl @
''Do not make up information. If the answer is not in the document, say so.'' @ nl @
''Keep your answers concise and easy to understand.'' @ nl\<close>

definition initial_request :: "string \<Rightarrow> api_call" where
  \<open>initial_request documentText =
     GroqChat ''llama-3.3-70b-versatile''
       [\<lparr>role = ''system'', content = initialAnalysisSystemPrompt\<rparr>,
        \<lparr>role = ''user'', content =
           ''Here is the legal document I need help understanding. Please provide a summary based on your instructions. Document Text: """''
           @ documentText @ ''"""''\<rparr>]\<close>

text \<open>\<^verbatim>\<open>getInitialAIAnalysis(documentText)\<close>: no \<^verbatim>\<open>try\<close>, so a failed call throws.\<close>

definition getInitialAIAnalysis ::
  "string \<Rightarrow> completion promise \<Rightarrow> (js_error + string) \<times> api_call list" where
  "getInitialAIAnalysis documentText create =
     ((case create of
         Resolved c \<Rightarrow>
           (case first_content c of
              Inr x \<Rightarrow> Inr (js_or x ''I was unable to analyze the document.'')
            | Inl error \<Rightarrow> Inl error)
       | Rejected error \<Rightarrow> Inl error),
      [initial_request documentText])"

definition followup_request :: "jsval \<Rightarrow> string \<Rightarrow> api_call" where
  \<open>followup_request documentText question =
     GroqChat ''llama-3.3-70b-versatile''
       [\<lparr>role = ''system'', content = followUpSystemPrompt\<rparr>,
        \<lparr>role = ''user'', content =
           ''Here is the full document text for context: """'' @ js_to_string documentText @ ''"""''
           @ nl @ nl @ ''Now, please answer my specific question: "'' @ question @ ''"''\<rparr>]\<close>

text \<open>\<^verbatim>\<open>getFollowUpAIResponse(documentText, question)\<close>.\<close>

definition getFollowUpAIResponse ::
  "jsval \<Rightarrow> string \<Rightarrow> completion promise \<Rightarrow> (js_error + string) \<times> api_call list" where
  "getFollowUpAIResponse documentText question create =
     ((case create of
         Resolved c \<Rightarrow>
           (case first_content c of
              Inr x \<Rightarrow> Inr (js_or x (''Sorry, I couldn'' @ [CHR 0x27] @ ''t find an answer to that question.''))
            | Inl error \<Rightarrow> Inl error)
       | Rejected error \<Rightarrow> Inl error),
      [followup_request documentText question])"

section \<open>Session variant: the routes\<close>

definition SESSION_TTL :: nat where
  "SESSION_TTL = 1000 * 60 * 30"

definition corrupted_reply :: reply where
  "corrupted_reply =
     \<lparr>status = 400,
      body = [(''error'', ''The uploaded PDF appears to be corrupted. Please re-save it and try again.'')]\<rparr>"

definition failed_reply :: reply where
  "failed_reply = \<lparr>status = 500, body = [(''error'', ''Failed to process the PDF file.'')]\<rparr>"

text \<open>\<^verbatim>\<open>error.message && error.message.toLowerCase().includes('xref')\<close>.\<close>

definition mentions_xref :: "js_error \<Rightarrow> bool" where
  "mentions_xref error =
     (case message error of
        None \<Rightarrow> False
      | Some m \<Rightarrow> m \<noteq> [] \<and> includes_str (toLowerCase m) ''xref'')"

text \<open>The \<^verbatim>\<open>catch\<close> block of \<^verbatim>\<open>/api/upload\<close>.\<close>

definition upload_catch :: "js_error \<Rightarrow> reply" where
  "upload_catch error = (if mentions_xref error then corrupted_reply else failed_reply)"

text \<open>
  \<^verbatim>\<open>app.post('/api/upload')\<close>. \<open>file\<close> is \<^verbatim>\<open>req.file\<close>'s buffer, \<open>parsed\<close> the outcome of
  \<^verbatim>\<open>pdf(req.file.buffer)\<close>, \<open>uuid\<close> what \<^verbatim>\<open>uuidv4()\<close> returns in this call and
  \<open>create\<close> the outcome of the Groq call. The session is stored and its timer set in one
  synchronous block, before the analysis is awaited.
\<close>

definition upload_handler ::
  "string option \<Rightarrow> pdf_data promise \<Rightarrow> string \<Rightarrow> completion promise \<Rightarrow> server_state \<Rightarrow>
     server_state \<times> reply \<times> api_call list" where
  "upload_handler file parsed uuid create s =
     (case file of
        None \<Rightarrow> (s, \<lparr>status = 400, body = [(''error'', ''No PDF file uploaded.'')]\<rparr>, [])
      | Some buffer \<Rightarrow>
          (case parsed of
             Rejected error \<Rightarrow> (s, upload_catch error, [])
           | Resolved data \<Rightarrow>
               (let documentText = pdf_text data;
                    sessionId = uuid;
                    s1 = s\<lparr>documentContextStore :=
                             js_set (documentContextStore s) sessionId documentText,
                           timers := timers s @ [(now s + SESSION_TTL, sessionId)]\<rparr>;
                    analysis = getInitialAIAnalysis documentText create
                in case fst analysis of
                     Inr aiSummary \<Rightarrow>
                       (s1,
                        \<lparr>status = 200, body = [(''message'', aiSummary), (''sessionId'', sessionId)]\<rparr>,
                        snd analysis)
                   | Inl error \<Rightarrow> (s1, upload_catch error, snd analysis))))"

definition session_missing_reply :: reply where
  "session_missing_reply =
     \<lparr>status = 404,
      body = [(''error'',
        ''Your document session has expired or is invalid. Please upload the document again.'')]\<rparr>"

text \<open>
  \<^verbatim>\<open>app.post('/api/chat')\<close>. The two body fields are strings or absent; \<open>create\<close> is the
  outcome of the Groq call.
\<close>

definition required_reply :: reply where
  "required_reply =
     \<lparr>status = 400, body = [(''error'', ''Session ID and question are required.'')]\<rparr>"

definition chat_handler ::
  "string option \<Rightarrow> string option \<Rightarrow> completion promise \<Rightarrow> server_state \<Rightarrow>
     server_state \<times> reply \<times> api_call list" where
  "chat_handler sessionId question create s =
     (if js_not sessionId \<or> js_not question then (s, required_reply, [])
      else
           (case (sessionId, question) of
              (Some sid, Some q) \<Rightarrow>
                (let documentText = js_get (documentContextStore s) sid
                 in if \<not> truthy documentText then (s, session_missing_reply, [])
                    else
                      (let answer = getFollowUpAIResponse documentText q create
                       in case fst answer of
                            Inr aiResponse \<Rightarrow>
                              (s, \<lparr>status = 200, body = [(''message'', aiResponse)]\<rparr>, snd answer)
                          | Inl error \<Rightarrow>
                              (s,
                               \<lparr>status = 500,
                                body = [(''error'', ''Failed to get a response from the AI.'')]\<rparr>,
                               snd answer)))
            | _ \<Rightarrow> (s, required_reply, [])))"

text \<open>The three parts of what a route returns.\<close>

abbreviation state_after :: "server_state \<times> reply \<times> api_call list \<Rightarrow> server_state" where
  "state_after r \<equiv> fst r"

abbreviation reply_of :: "server_state \<times> reply \<times> api_call list \<Rightarrow> reply" where
  "reply_of r \<equiv> fst (snd r)"

abbreviation requests_of :: "server_state \<times> reply \<times> api_call list \<Rightarrow> api_call list" where
  "requests_of r \<equiv> snd (snd r)"

section \<open>Session variant: expiry\<close>

text \<open>The callback \<^verbatim>\<open>setTimeout\<close> is given: \<^verbatim>\<open>delete documentContextStore[sessionId]\<close>.\<close>

definition expire :: "string \<Rightarrow> server_state \<Rightarrow> server_state" where
  "expire sessionId s =
     s\<lparr>documentContextStore := js_delete (documentContextStore s) sessionId\<rparr>"

definition is_due :: "nat \<Rightarrow> nat \<times> string \<Rightarrow> bool" where
  "is_due t timer = (fst timer \<le> t)"

text \<open>
  The event loop runs the callback of every timer that is due, in the order they were set,
  and forgets those timers. Node promises that a callback does not run before its timer is
  due; here it runs as soon as the clock has reached that instant.
\<close>

definition run_timers :: "server_state \<Rightarrow> server_state" where
  "run_timers s =
     (fold (\<lambda>timer. expire (snd timer)) (filter (is_due (now s)) (timers s)) s)
       \<lparr>timers := filter (\<lambda>timer. \<not> is_due (now s) timer) (timers s)\<rparr>"

text \<open>\<open>dt\<close> milliseconds pass.\<close>

definition elapse :: "nat \<Rightarrow> server_state \<Rightarrow> server_state" where
  "elapse dt s = run_timers (s\<lparr>now := now s + dt\<rparr>)"

text \<open>What the store and the controller of the specification call \<open>get\<close>: the read of
  \<^verbatim>\<open>/api/chat\<close> and its test \<^verbatim>\<open>if (!documentText)\<close>.\<close>

datatype lookup = NotFound | Found jsval

definition get_session :: "server_state \<Rightarrow> string \<Rightarrow> lookup" where
  "get_session s sessionId =
     (let documentText = js_get (documentContextStore s) sessionId
      in if \<not> truthy documentText then NotFound else Found documentText)"

section \<open>Runs of the server\<close>

text \<open>
  What happens to the server, one event after the other: an upload, a chat request, or time
  passing. A request is handled in one step. Node interleaves handlers only at an
  \<^verbatim>\<open>await\<close>; \<^verbatim>\<open>/api/upload\<close> writes the store and sets its timer in one synchronous block
  between its two awaits, \<^verbatim>\<open>/api/chat\<close> reads the store before its only await, and what a
  handler replies after an await depends on its own constants and on the outcome awaited, not
  on the state. So every interleaving has the states and the replies of the run that takes
  the handlers in the order of these blocks.
\<close>

datatype event =
  Upload "string option" "pdf_data promise" string "completion promise"
| Chat "string option" "string option" "completion promise"
| Elapse nat

fun step :: "event \<Rightarrow> server_state \<Rightarrow> server_state \<times> reply list" where
  "step (Upload file parsed uuid create) s =
     (let r = upload_handler file parsed uuid create s in (state_after r, [reply_of r]))"
| "step (Chat sessionId question create) s =
     (let r = chat_handler sessionId question create s in (state_after r, [reply_of r]))"
| "step (Elapse dt) s = (elapse dt s, [])"

fun run :: "event list \<Rightarrow> server_state \<Rightarrow> server_state \<times> reply list" where
  "run [] s = (s, [])"
| "run (e # es) s =
     (let r = step e s; rest = run es (fst r) in (fst rest, snd r @ snd rest))"

fun is_chat :: "event \<Rightarrow> bool" where
  "is_chat (Chat sessionId question create) = True"
| "is_chat e = False"

text \<open>The calls of \<^verbatim>\<open>uuidv4()\<close> a run makes, each with the text stored under its result: one
  for every upload whose file is there and parses.\<close>

fun created :: "event list \<Rightarrow> (string \<times> string) list" where
  "created [] = []"
| "created (Upload (Some buffer) (Resolved data) uuid create # es) =
     (uuid, pdf_text data) # created es"
| "created (e # es) = created es"



fun elapsed :: "event list \<Rightarrow> nat" where
  "elapsed [] = 0"
| "elapsed (Elapse dt # es) = dt + elapsed es"
| "elapsed (e # es) = elapsed es"

text \<open>
  The shape of what \<^verbatim>\<open>uuidv4()\<close> returns: 36 characters, hyphens at four places, lower-case
  hexadecimal digits elsewhere, the version digit \<^verbatim>\<open>4\<close>.
\<close>

definition is_uuid :: "string \<Rightarrow> bool" where
  "is_uuid u =
     (length u = 36 \<and>
      list_all (\<lambda>(i, c). if i \<in> {8, 13, 18, 23} then c = CHR ''-''
                         else c \<in> set ''0123456789abcdef'') (zip [0..<36] u) \<and>
      u ! 14 = CHR ''4'')"

text \<open>
  While a session \<open>u\<close> is in the store, a timer that deletes it is pending, due no later
  than \<open>T\<close> and not yet due.
\<close>

definition expiry_pending :: "nat \<Rightarrow> string \<Rightarrow> server_state \<Rightarrow> bool" where
  "expiry_pending T u s =
     (documentContextStore s u \<noteq> None \<longrightarrow>
        list_ex (\<lambda>timer. snd timer = u \<and> fst timer \<le> T \<and> now s < fst timer) (timers s))"

definition init :: server_state where
  "init = \<lparr>documentContextStore = Map.empty, timers = [], now = 0\<rparr>"

section \<open>Facts about the translating variant\<close>

lemma getGroqAnalysis_sent:
  "snd (getGroqAnalysis messages create) = [GroqChat ''llama3-8b-8192'' messages]"
  by (simp add: getGroqAnalysis_def)

lemma getGroqAnalysis_answer:
  "groq_answer create = Some a \<Longrightarrow> fst (getGroqAnalysis messages create) = Inr a"
  by (auto simp: getGroqAnalysis_def groq_answer_def first_content_def js_or_def
      split: promise.splits option.splits list.splits if_splits)

lemma getGroqAnalysis_failed:
  "groq_failed create \<Longrightarrow> fst (getGroqAnalysis messages create) = Inr groq_apology"
  by (auto simp: getGroqAnalysis_def groq_failed_def first_content_def
      split: promise.splits option.splits list.splits)

lemma getSarvamChatResponse_fallback:
  "sarvam_failed post \<Longrightarrow>
     getSarvamChatResponse messages post create =
       (fst (getGroqAnalysis messages create),
        [SarvamChat ''sarvam-m'' messages, GroqChat ''llama3-8b-8192'' messages])"
  by (auto simp: getSarvamChatResponse_def sarvam_failed_def first_content_def Let_def
      getGroqAnalysis_sent split: promise.splits option.splits list.splits)

text \<open>
  Claim C6. For every message list, when the primary provider fails,
  \<^verbatim>\<open>getSarvamChatResponse\<close> sends the same messages to the secondary provider and returns
  what \<^verbatim>\<open>getGroqAnalysis\<close> returns: the secondary's answer when it gives one, and the fixed
  generic error text when the secondary fails too. Nothing is thrown to the caller.
\<close>

theorem provider_fallback_chain:
  assumes "sarvam_failed post"
  shows "snd (getSarvamChatResponse messages post create) =
           [SarvamChat ''sarvam-m'' messages, GroqChat ''llama3-8b-8192'' messages] \<and>
         fst (getSarvamChatResponse messages post create) = fst (getGroqAnalysis messages create) \<and>
         (\<forall>a. groq_answer create = Some a \<longrightarrow>
            fst (getSarvamChatResponse messages post create) = Inr a) \<and>
         (groq_failed create \<longrightarrow>
            fst (getSarvamChatResponse messages post create) = Inr groq_apology)"
  using assms
  by (simp add: getSarvamChatResponse_fallback getGroqAnalysis_answer getGroqAnalysis_failed)

theorem provider_fallback_chain_witness:
  "sarvam_failed (Rejected \<lparr>message = Some ''Request failed with status code 503''\<rparr>) \<and>
   groq_failed (Rejected \<lparr>message = Some ''Connection error.''\<rparr>) \<and>
   fst (getSarvamChatResponse [\<lparr>role = ''user'', content = ''What is the rent?''\<rparr>]
     (Rejected \<lparr>message = Some ''Request failed with status code 503''\<rparr>)
     (Rejected \<lparr>message = Some ''Connection error.''\<rparr>)) = Inr groq_apology \<and>
   snd (getSarvamChatResponse [\<lparr>role = ''user'', content = ''What is the rent?''\<rparr>]
     (Rejected \<lparr>message = Some ''Request failed with status code 503''\<rparr>)
     (Rejected \<lparr>message = Some ''Connection error.''\<rparr>)) =
    [SarvamChat ''sarvam-m'' [\<lparr>role = ''user'', content = ''What is the rent?''\<rparr>],
     GroqChat ''llama3-8b-8192'' [\<lparr>role = ''user'', content = ''What is the rent?''\<rparr>]]"
proof -
  have primary: "sarvam_failed (Rejected \<lparr>message = Some ''Request failed with status code 503''\<rparr>)"
    by (simp add: sarvam_failed_def)
  have secondary: "groq_failed (Rejected \<lparr>message = Some ''Connection error.''\<rparr>)"
    by (simp add: groq_failed_def)
  from provider_fallback_chain [OF primary,
      of "[\<lparr>role = ''user'', content = ''What is the rent?''\<rparr>]"
         "Rejected \<lparr>message = Some ''Connection error.''\<rparr>"] primary secondary
  show ?thesis by blast
qed

text \<open>
  Claim C7. For every text, target and source language and every outcome of the translation
  request, \<^verbatim>\<open>translateText\<close> returns a string and never rejects; when the request fails,
  or its response carries no data or no translated text, the string returned is the input
  text unchanged.
\<close>

theorem translateText_absorbs_failure:
  "(\<exists>r. translateText text targetLanguageCode sourceLanguageCode post = Inr r) \<and>
   (translation_failed post \<longrightarrow>
      translateText text targetLanguageCode sourceLanguageCode post = Inr text)"
proof
  show "\<exists>r. translateText text targetLanguageCode sourceLanguageCode post = Inr r"
    by (simp add: translateText_def split: promise.split option.split)
next
  show "translation_failed post \<longrightarrow>
      translateText text targetLanguageCode sourceLanguageCode post = Inr text"
    by (auto simp: translateText_def translation_failed_def js_or_def js_not_def
        split: promise.splits option.splits)
qed

theorem translateText_absorbs_failure_witness:
  "translation_failed (Rejected \<lparr>message = Some ''Network Error''\<rparr>) \<and>
   translateText ''What is the rent?'' ''hi-IN'' ''en-IN''
     (Rejected \<lparr>message = Some ''Network Error''\<rparr>) = Inr ''What is the rent?''"
proof -
  have failed: "translation_failed (Rejected \<lparr>message = Some ''Network Error''\<rparr>)"
    by (simp add: translation_failed_def)
  from translateText_absorbs_failure
    [of "''What is the rent?''" "''hi-IN''" "''en-IN''" "Rejected \<lparr>message = Some ''Network Error''\<rparr>"]
  have "translateText ''What is the rent?'' ''hi-IN'' ''en-IN''
     (Rejected \<lparr>message = Some ''Network Error''\<rparr>) = Inr ''What is the rent?''"
    using failed by blast
  with failed show ?thesis by blast
qed

section \<open>Facts about the store and the routes\<close>

lemma is_uuid_not_inherited: "is_uuid u \<Longrightarrow> u \<notin> set object_prototype_keys"
  by (auto simp: is_uuid_def object_prototype_keys_def)

lemma is_uuid_not_empty: "is_uuid u \<Longrightarrow> u \<noteq> []"
  by (auto simp: is_uuid_def)

lemma js_set_uuid: "is_uuid u \<Longrightarrow> js_set obj u v = obj(u \<mapsto> v)"
  using is_uuid_not_inherited [of u] by (auto simp: js_set_def object_prototype_keys_def)

lemma js_set_other: "k \<noteq> u \<Longrightarrow> js_set obj k v u = obj u"
  by (simp add: js_set_def)

lemma upload_handler_parsed:
  "upload_handler (Some buffer) (Resolved data) uuid create s =
     (s\<lparr>documentContextStore := js_set (documentContextStore s) uuid (pdf_text data),
        timers := timers s @ [(now s + SESSION_TTL, uuid)]\<rparr>,
      (case fst (getInitialAIAnalysis (pdf_text data) create) of
         Inr aiSummary \<Rightarrow>
           \<lparr>status = 200, body = [(''message'', aiSummary), (''sessionId'', uuid)]\<rparr>
       | Inl error \<Rightarrow> upload_catch error),
      [initial_request (pdf_text data)])"
  by (simp add: upload_handler_def Let_def getInitialAIAnalysis_def split: sum.split)

lemma upload_handler_state:
  "state_after (upload_handler f parsed uuid create s) =
     (case created [Upload f parsed uuid create] of
        [] \<Rightarrow> s
      | c # _ \<Rightarrow>
          s\<lparr>documentContextStore := js_set (documentContextStore s) (fst c) (snd c),
            timers := timers s @ [(now s + SESSION_TTL, fst c)]\<rparr>)"
  by (cases f; cases parsed)
    (simp_all add: upload_handler_def Let_def split: sum.split)

lemma get_session_own:
  "documentContextStore s k = Some v \<Longrightarrow>
     get_session s k = (if v = [] then NotFound else Found (JString v))"
  by (simp add: get_session_def js_get_def truthy_def)

lemma get_session_absent:
  "documentContextStore s k = None \<Longrightarrow> k \<notin> set object_prototype_keys \<Longrightarrow>
     get_session s k = NotFound"
  by (simp add: get_session_def js_get_def truthy_def)

lemma chat_handler_state:
  "state_after (chat_handler sessionId question create s) = s"
  by (simp add: chat_handler_def Let_def split: option.split sum.split prod.split)

lemma chat_handler_lookup:
  "sid \<noteq> [] \<Longrightarrow> q \<noteq> [] \<Longrightarrow>
     chat_handler (Some sid) (Some q) create s =
       (case get_session s sid of
          NotFound \<Rightarrow> (s, session_missing_reply, [])
        | Found documentText \<Rightarrow>
            (s,
             (case fst (getFollowUpAIResponse documentText q create) of
                Inr aiResponse \<Rightarrow> \<lparr>status = 200, body = [(''message'', aiResponse)]\<rparr>
              | Inl error \<Rightarrow>
                  \<lparr>status = 500, body = [(''error'', ''Failed to get a response from the AI.'')]\<rparr>),
             [followup_request documentText q]))"
  by (simp add: chat_handler_def get_session_def js_not_def Let_def getFollowUpAIResponse_def
      split: sum.split)

lemma fold_expire_store:
  "documentContextStore (fold (\<lambda>timer. expire (snd timer)) xs s) k =
     (if k \<in> snd ` set xs then None else documentContextStore s k)"
  by (induction xs arbitrary: s) (auto simp: expire_def js_delete_def)

lemma fold_expire_rest:
  "timers (fold (\<lambda>timer. expire (snd timer)) xs s) = timers s \<and>
   now (fold (\<lambda>timer. expire (snd timer)) xs s) = now s"
  by (induction xs arbitrary: s) (auto simp: expire_def)

lemma elapse_store:
  "documentContextStore (elapse dt s) k =
     (if \<exists>t. (t, k) \<in> set (timers s) \<and> t \<le> now s + dt then None
      else documentContextStore s k)"
  by (force simp: elapse_def run_timers_def fold_expire_store is_due_def)

lemma elapse_timers:
  "timers (elapse dt s) = filter (\<lambda>timer. \<not> fst timer \<le> now s + dt) (timers s)"
  by (simp add: elapse_def run_timers_def is_due_def)

lemma elapse_now: "now (elapse dt s) = now s + dt"
  by (simp add: elapse_def run_timers_def fold_expire_rest)

lemma upload_catch_no_session: "map_of (body (upload_catch error)) ''sessionId'' = None"
  by (simp add: upload_catch_def corrupted_reply_def failed_reply_def)

lemma upload_catch_status: "status (upload_catch error) \<in> {400, 500}"
  by (simp add: upload_catch_def corrupted_reply_def failed_reply_def)

lemma getInitialAIAnalysis_failed:
  "groq_failed create \<Longrightarrow> \<exists>error. fst (getInitialAIAnalysis documentText create) = Inl error"
  by (auto simp: getInitialAIAnalysis_def groq_failed_def first_content_def
      split: promise.splits option.splits)

section \<open>Facts about runs\<close>



lemma created_Cons: "created (e # es) = created [e] @ created es"
  by (cases "e # es" rule: created.cases) auto

lemma created_append: "created (xs @ ys) = created xs @ created ys"
proof (induction xs)
  case Nil
  show ?case by simp
next
  case (Cons e es)
  then show ?case
    using created_Cons [of e "es @ ys"] created_Cons [of e es] by simp
qed

lemma elapsed_append: "elapsed (xs @ ys) = elapsed xs + elapsed ys"
  by (induction xs rule: elapsed.induct) simp_all






lemma step_proto_absent:
  assumes "documentContextStore s ''__proto__'' = None"
  shows "documentContextStore (fst (step e s)) ''__proto__'' = None"
proof (cases e)
  case (Upload f parsed uuid create)
  with assms show ?thesis
    by (simp add: Let_def upload_handler_state js_set_def split: list.split)
next
  case (Chat sessionId question create)
  with assms show ?thesis by (simp add: Let_def chat_handler_state)
next
  case (Elapse dt)
  with assms show ?thesis by (simp add: elapse_store)
qed


lemma run_proto_absent:
  "documentContextStore s ''__proto__'' = None \<Longrightarrow>
     documentContextStore (fst (run evs s)) ''__proto__'' = None"
  by (induction evs arbitrary: s) (simp_all add: Let_def step_proto_absent)


lemma step_store_origin:
  assumes "documentContextStore (fst (step e s)) sid = Some t"
  shows "(sid, t) \<in> set (created [e]) \<or> documentContextStore s sid = Some t"
proof (cases e)
  case (Upload f parsed uuid create)
  with assms show ?thesis
    by (cases f; cases parsed)
      (auto simp: Let_def upload_handler_def js_set_def split: sum.splits if_splits)
next
  case (Chat sessionId question create)
  with assms show ?thesis
    using chat_handler_state [of sessionId question create s] by (simp add: Let_def)
next
  case (Elapse dt)
  with assms show ?thesis by (auto simp: elapse_store split: if_splits)
qed

lemma run_store_origin:
  "documentContextStore (fst (run evs s)) sid = Some t \<Longrightarrow>
     (sid, t) \<in> set (created evs) \<or> documentContextStore s sid = Some t"
proof (induction evs arbitrary: s)
  case Nil
  then show ?case by simp
next
  case (Cons e es)
  from Cons.prems have "documentContextStore (fst (run es (fst (step e s)))) sid = Some t"
    by (simp add: Let_def)
  then have "(sid, t) \<in> set (created es) \<or> documentContextStore (fst (step e s)) sid = Some t"
    by (rule Cons.IH)
  then show ?case
    using step_store_origin [of e s sid t] created_Cons [of e es] by auto
qed

lemma step_now: "now (fst (step e s)) = now s + elapsed [e]"
proof (cases e)
  case (Upload f parsed uuid create)
  then show ?thesis
    by (simp add: Let_def upload_handler_state split: list.split)
next
  case (Chat sessionId question create)
  then show ?thesis
    using chat_handler_state [of sessionId question create s] by (simp add: Let_def)
next
  case (Elapse dt)
  then show ?thesis by (simp add: elapse_now)
qed

lemma run_now: "now (fst (run evs s)) = now s + elapsed evs"
proof (induction evs arbitrary: s)
  case Nil
  show ?case by simp
next
  case (Cons e es)
  have "elapsed (e # es) = elapsed [e] + elapsed es"
    using elapsed_append [of "[e]" es] by simp
  then show ?case
    by (simp add: Let_def Cons.IH step_now)
qed

lemma step_expiry_pending:
  assumes "expiry_pending T u s" and "u \<notin> fst ` set (created [e])"
  shows "expiry_pending T u (fst (step e s))"
proof (cases e)
  case (Upload f parsed uuid create)
  show ?thesis
  proof (cases "created [e]")
    case Nil
    with Upload assms(1) show ?thesis
      by (simp add: Let_def upload_handler_state)
  next
    case (Cons c cs)
    with assms(2) have "fst c \<noteq> u" by auto
    with Upload Cons assms(1) show ?thesis
      by (auto simp: Let_def upload_handler_state expiry_pending_def js_set_other)
  qed
next
  case (Chat sessionId question create)
  with assms(1) show ?thesis
    using chat_handler_state [of sessionId question create s] by (simp add: Let_def)
next
  case (Elapse dt)
  show ?thesis
    unfolding expiry_pending_def
  proof
    assume live: "documentContextStore (fst (step e s)) u \<noteq> None"
    with Elapse have not_due: "\<not> (\<exists>t. (t, u) \<in> set (timers s) \<and> t \<le> now s + dt)"
      and before: "documentContextStore s u \<noteq> None"
      by (auto simp: elapse_store split: if_splits)
    from before assms(1) obtain d where d: "(d, u) \<in> set (timers s)" "d \<le> T" "now s < d"
      by (auto simp: expiry_pending_def list_ex_iff)
    with not_due have later: "now s + dt < d" by force
    with d have "(d, u) \<in> set (timers (elapse dt s))"
      by (simp add: elapse_timers)
    with d later Elapse
    show "list_ex (\<lambda>timer. snd timer = u \<and> fst timer \<le> T \<and> now (fst (step e s)) < fst timer)
        (timers (fst (step e s)))"
      by (force simp: list_ex_iff elapse_now)
  qed
qed

lemma run_expiry_pending:
  "expiry_pending T u s \<Longrightarrow> u \<notin> fst ` set (created evs) \<Longrightarrow>
     expiry_pending T u (fst (run evs s))"
proof (induction evs arbitrary: s)
  case Nil
  then show ?case by simp
next
  case (Cons e es)
  from Cons.prems(2) have fresh: "u \<notin> fst ` set (created [e])" "u \<notin> fst ` set (created es)"
    using created_Cons [of e es] by auto
  from step_expiry_pending [OF Cons.prems(1) fresh(1)]
  have "expiry_pending T u (fst (run es (fst (step e s))))"
    using fresh(2) by (rule Cons.IH)
  then show ?case by (simp add: Let_def)
qed

lemma expiry_pending_overdue:
  "expiry_pending T u s \<Longrightarrow> T \<le> now s \<Longrightarrow> documentContextStore s u = None"
  by (fastforce simp: expiry_pending_def list_ex_iff)

lemma upload_expiry_pending:
  "expiry_pending (now s + SESSION_TTL) uuid
     (state_after (upload_handler (Some buffer) (Resolved data) uuid create s))"
  by (simp add: upload_handler_parsed expiry_pending_def SESSION_TTL_def)

lemma expired_after_ttl:
  assumes "is_uuid uuid" and "uuid \<notin> fst ` set (created evs)" and "SESSION_TTL \<le> elapsed evs"
  shows "get_session
           (fst (run evs (state_after (upload_handler (Some buffer) (Resolved data) uuid create s))))
           uuid = NotFound"
proof -
  let ?s1 = "state_after (upload_handler (Some buffer) (Resolved data) uuid create s)"
  have "expiry_pending (now s + SESSION_TTL) uuid (fst (run evs ?s1))"
    using upload_expiry_pending assms(2) by (rule run_expiry_pending)
  moreover have "now s + SESSION_TTL \<le> now (fst (run evs ?s1))"
    using assms(3) by (simp add: run_now upload_handler_parsed)
  ultimately have "documentContextStore (fst (run evs ?s1)) uuid = None"
    by (rule expiry_pending_overdue)
  then show ?thesis
    using is_uuid_not_inherited [OF assms(1)] by (rule get_session_absent)
qed

lemma run_chats_state: "list_all is_chat evs \<Longrightarrow> fst (run evs s) = s"
proof (induction evs)
  case Nil
  show ?case by simp
next
  case (Cons e es)
  from Cons.prems obtain sessionId question create where "e = Chat sessionId question create"
    by (cases e) auto
  with Cons show ?case
    by (simp add: Let_def chat_handler_state)
qed

section \<open>The session store: round trip, expiry, unknown sessions\<close>

text \<open>
  Claim C1, as the code has it. For every document text that is not empty, an upload that
  parses stores the text under the id \<^verbatim>\<open>uuidv4()\<close> returned, and a lookup of that id right
  after finds exactly that text: \<^verbatim>\<open>/api/chat\<close> builds its request from it.
\<close>

theorem round_trip_nonempty:
  assumes "is_uuid uuid" and "pdf_text data \<noteq> []"
  shows "get_session (state_after (upload_handler (Some buffer) (Resolved data) uuid create s)) uuid =
           Found (JString (pdf_text data)) \<and>
         (question \<noteq> [] \<longrightarrow>
            requests_of (chat_handler (Some uuid) (Some question) create'
                (state_after (upload_handler (Some buffer) (Resolved data) uuid create s))) =
              [followup_request (JString (pdf_text data)) question])"
proof -
  let ?s1 = "state_after (upload_handler (Some buffer) (Resolved data) uuid create s)"
  from assms(1) have stored: "documentContextStore ?s1 uuid = Some (pdf_text data)"
    by (simp add: upload_handler_parsed js_set_uuid)
  with assms(2) have found: "get_session ?s1 uuid = Found (JString (pdf_text data))"
    by (simp add: get_session_own)
  moreover have "question \<noteq> [] \<longrightarrow>
            requests_of (chat_handler (Some uuid) (Some question) create' ?s1) =
              [followup_request (JString (pdf_text data)) question]"
    using is_uuid_not_empty [OF assms(1)] found by (simp add: chat_handler_lookup)
  ultimately show ?thesis by blast
qed

theorem round_trip_nonempty_witness:
  "is_uuid ''8c5fb679-6b1c-4d27-9f3a-0a4e1d2c3b4f'' \<and>
   pdf_text \<lparr>pdf_text = ''Lease Agreement between A and B...''\<rparr> \<noteq> [] \<and>
   get_session
     (state_after (upload_handler (Some ''%PDF-1.4'')
        (Resolved \<lparr>pdf_text = ''Lease Agreement between A and B...''\<rparr>)
        ''8c5fb679-6b1c-4d27-9f3a-0a4e1d2c3b4f''
        (Resolved \<lparr>choices = Some [Some ''Summary.'']\<rparr>) init))
     ''8c5fb679-6b1c-4d27-9f3a-0a4e1d2c3b4f'' =
   Found (JString ''Lease Agreement between A and B...'')"
proof -
  have shape: "is_uuid ''8c5fb679-6b1c-4d27-9f3a-0a4e1d2c3b4f''"
    by (simp add: is_uuid_def upt_rec)
  have nonempty: "pdf_text \<lparr>pdf_text = ''Lease Agreement between A and B...''\<rparr> \<noteq> []"
    by simp
  from round_trip_nonempty [OF shape nonempty, of "''%PDF-1.4''"
      "Resolved \<lparr>choices = Some [Some ''Summary.'']\<rparr>" init]
  have "get_session
     (state_after (upload_handler (Some ''%PDF-1.4'')
        (Resolved \<lparr>pdf_text = ''Lease Agreement between A and B...''\<rparr>)
        ''8c5fb679-6b1c-4d27-9f3a-0a4e1d2c3b4f''
        (Resolved \<lparr>choices = Some [Some ''Summary.'']\<rparr>) init))
     ''8c5fb679-6b1c-4d27-9f3a-0a4e1d2c3b4f'' =
   Found (JString ''Lease Agreement between A and B...'')"
    by simp
  with shape nonempty show ?thesis by blast
qed

text \<open>
  The claim as stated fails for the empty text: the upload answers with a session id, and
  the lookup of that id finds nothing, because \<^verbatim>\<open>if (!documentText)\<close> takes the empty
  string for a missing session.
\<close>

theorem empty_text_counterexample:
  "reply_of (upload_handler (Some ''%PDF-1.4'') (Resolved \<lparr>pdf_text = ''''\<rparr>)
       ''8c5fb679-6b1c-4d27-9f3a-0a4e1d2c3b4f''
       (Resolved \<lparr>choices = Some [Some ''Summary.'']\<rparr>) init) =
     \<lparr>status = 200,
      body = [(''message'', ''Summary.''), (''sessionId'', ''8c5fb679-6b1c-4d27-9f3a-0a4e1d2c3b4f'')]\<rparr> \<and>
   get_session
     (state_after (upload_handler (Some ''%PDF-1.4'') (Resolved \<lparr>pdf_text = ''''\<rparr>)
       ''8c5fb679-6b1c-4d27-9f3a-0a4e1d2c3b4f''
       (Resolved \<lparr>choices = Some [Some ''Summary.'']\<rparr>) init))
     ''8c5fb679-6b1c-4d27-9f3a-0a4e1d2c3b4f'' = NotFound"
  by (simp add: upload_handler_parsed getInitialAIAnalysis_def first_content_def js_or_def
      get_session_def js_get_def js_set_def truthy_def init_def)

text \<open>
  Claim C2. A session stored by an upload is found right after; once the 30 minutes of
  \<^verbatim>\<open>SESSION_TTL\<close> have passed, whatever else happened meanwhile, a lookup of its id finds
  nothing, and nothing that happens later makes it found again. \<^verbatim>\<open>uuidv4()\<close> is taken
  not to return the same id a second time.
\<close>

theorem session_expires_for_good:
  assumes "is_uuid uuid" and "pdf_text data \<noteq> []"
    and "uuid \<notin> fst ` set (created evs)" and "SESSION_TTL \<le> elapsed evs"
  shows "get_session (state_after (upload_handler (Some buffer) (Resolved data) uuid create s)) uuid =
           Found (JString (pdf_text data)) \<and>
         get_session
           (fst (run evs (state_after (upload_handler (Some buffer) (Resolved data) uuid create s))))
           uuid = NotFound \<and>
         (\<forall>more. uuid \<notin> fst ` set (created more) \<longrightarrow>
            get_session
              (fst (run (evs @ more)
                 (state_after (upload_handler (Some buffer) (Resolved data) uuid create s))))
              uuid = NotFound)"
proof -
  let ?s1 = "state_after (upload_handler (Some buffer) (Resolved data) uuid create s)"
  have "documentContextStore ?s1 uuid = Some (pdf_text data)"
    using assms(1) by (simp add: upload_handler_parsed js_set_uuid)
  with assms(2) have before: "get_session ?s1 uuid = Found (JString (pdf_text data))"
    by (simp add: get_session_own)
  have after: "get_session (fst (run evs ?s1)) uuid = NotFound"
    using assms(1,3,4) by (rule expired_after_ttl)
  have "get_session (fst (run (evs @ more) ?s1)) uuid = NotFound"
    if "uuid \<notin> fst ` set (created more)" for more
  proof (rule expired_after_ttl [OF assms(1)])
    show "uuid \<notin> fst ` set (created (evs @ more))"
      using assms(3) that by (simp add: created_append image_Un)
    show "SESSION_TTL \<le> elapsed (evs @ more)"
      using assms(4) by (simp add: elapsed_append)
  qed
  with before after show ?thesis by blast
qed

theorem session_expires_for_good_witness:
  "is_uuid ''8c5fb679-6b1c-4d27-9f3a-0a4e1d2c3b4f'' \<and>
   ''8c5fb679-6b1c-4d27-9f3a-0a4e1d2c3b4f'' \<notin> fst ` set (created
     [Chat (Some ''8c5fb679-6b1c-4d27-9f3a-0a4e1d2c3b4f'') (Some ''What is the rent?'')
        (Resolved \<lparr>choices = Some [Some ''The rent is 500.'']\<rparr>),
      Upload (Some ''%PDF-1.7'') (Resolved \<lparr>pdf_text = ''Non-disclosure agreement''\<rparr>)
        ''1b9d6bcd-bbfd-4b2d-9b5d-ab8dfbbd4bed'' (Resolved \<lparr>choices = Some [Some ''Summary.'']\<rparr>),
      Elapse 1800000]) \<and>
   SESSION_TTL \<le> elapsed
     [Chat (Some ''8c5fb679-6b1c-4d27-9f3a-0a4e1d2c3b4f'') (Some ''What is the rent?'')
        (Resolved \<lparr>choices = Some [Some ''The rent is 500.'']\<rparr>),
      Upload (Some ''%PDF-1.7'') (Resolved \<lparr>pdf_text = ''Non-disclosure agreement''\<rparr>)
        ''1b9d6bcd-bbfd-4b2d-9b5d-ab8dfbbd4bed'' (Resolved \<lparr>choices = Some [Some ''Summary.'']\<rparr>),
      Elapse 1800000] \<and>
   get_session (state_after (upload_handler (Some ''%PDF-1.4'')
       (Resolved \<lparr>pdf_text = ''Lease Agreement between A and B...''\<rparr>)
       ''8c5fb679-6b1c-4d27-9f3a-0a4e1d2c3b4f''
       (Resolved \<lparr>choices = Some [Some ''Summary.'']\<rparr>) init))
     ''8c5fb679-6b1c-4d27-9f3a-0a4e1d2c3b4f'' = Found (JString ''Lease Agreement between A and B...'') \<and>
   get_session (fst (run
     [Chat (Some ''8c5fb679-6b1c-4d27-9f3a-0a4e1d2c3b4f'') (Some ''What is the rent?'')
        (Resolved \<lparr>choices = Some [Some ''The rent is 500.'']\<rparr>),
      Upload (Some ''%PDF-1.7'') (Resolved \<lparr>pdf_text = ''Non-disclosure agreement''\<rparr>)
        ''1b9d6bcd-bbfd-4b2d-9b5d-ab8dfbbd4bed'' (Resolved \<lparr>choices = Some [Some ''Summary.'']\<rparr>),
      Elapse 1800000]
     (state_after (upload_handler (Some ''%PDF-1.4'')
       (Resolved \<lparr>pdf_text = ''Lease Agreement between A and B...''\<rparr>)
       ''8c5fb679-6b1c-4d27-9f3a-0a4e1d2c3b4f''
       (Resolved \<lparr>choices = Some [Some ''Summary.'']\<rparr>) init))))
     ''8c5fb679-6b1c-4d27-9f3a-0a4e1d2c3b4f'' = NotFound"
proof -
  let ?evs = "[Chat (Some ''8c5fb679-6b1c-4d27-9f3a-0a4e1d2c3b4f'') (Some ''What is the rent?'')
        (Resolved \<lparr>choices = Some [Some ''The rent is 500.'']\<rparr>),
      Upload (Some ''%PDF-1.7'') (Resolved \<lparr>pdf_text = ''Non-disclosure agreement''\<rparr>)
        ''1b9d6bcd-bbfd-4b2d-9b5d-ab8dfbbd4bed'' (Resolved \<lparr>choices = Some [Some ''Summary.'']\<rparr>),
      Elapse 1800000]"
  have shape: "is_uuid ''8c5fb679-6b1c-4d27-9f3a-0a4e1d2c3b4f''"
    by (simp add: is_uuid_def upt_rec)
  have nonempty: "pdf_text \<lparr>pdf_text = ''Lease Agreement between A and B...''\<rparr> \<noteq> []"
    by simp
  have fresh: "''8c5fb679-6b1c-4d27-9f3a-0a4e1d2c3b4f'' \<notin> fst ` set (created ?evs)"
    by simp
  have late: "SESSION_TTL \<le> elapsed ?evs"
    by (simp add: SESSION_TTL_def)
  from session_expires_for_good [OF shape nonempty fresh late, of "''%PDF-1.4''"
      "Resolved \<lparr>choices = Some [Some ''Summary.'']\<rparr>" init]
  have "get_session (state_after (upload_handler (Some ''%PDF-1.4'')
       (Resolved \<lparr>pdf_text = ''Lease Agreement between A and B...''\<rparr>)
       ''8c5fb679-6b1c-4d27-9f3a-0a4e1d2c3b4f''
       (Resolved \<lparr>choices = Some [Some ''Summary.'']\<rparr>) init))
     ''8c5fb679-6b1c-4d27-9f3a-0a4e1d2c3b4f'' = Found (JString ''Lease Agreement between A and B...'') \<and>
   get_session (fst (run ?evs
     (state_after (upload_handler (Some ''%PDF-1.4'')
       (Resolved \<lparr>pdf_text = ''Lease Agreement between A and B...''\<rparr>)
       ''8c5fb679-6b1c-4d27-9f3a-0a4e1d2c3b4f''
       (Resolved \<lparr>choices = Some [Some ''Summary.'']\<rparr>) init))))
     ''8c5fb679-6b1c-4d27-9f3a-0a4e1d2c3b4f'' = NotFound"
    by simp
  with shape fresh late show ?thesis by blast
qed

text \<open>
  Claim C3, as the code has it. In every state the server reaches from its start, a chat
  request with a question and a session id that no upload was given, and that is not the name
  of a member of \<^verbatim>\<open>Object.prototype\<close>, changes nothing and sends nothing to the provider;
  it is answered 404 "session expired or invalid" when the id is not empty, and 400 when it
  is.
\<close>

theorem unknown_session_rejected:
  assumes "sid \<notin> fst ` set (created evs)" and "sid \<notin> set object_prototype_keys"
    and "question \<noteq> []"
  shows "get_session (fst (run evs init)) sid = NotFound \<and>
         chat_handler (Some sid) (Some question) create (fst (run evs init)) =
           (fst (run evs init),
            if sid = [] then required_reply else session_missing_reply,
            [])"
proof -
  have absent: "documentContextStore (fst (run evs init)) sid = None"
  proof (cases "documentContextStore (fst (run evs init)) sid")
    case None
    then show ?thesis .
  next
    case (Some t)
    from run_store_origin [OF Some] have "(sid, t) \<in> set (created evs)"
      by (simp add: init_def)
    with assms(1) show ?thesis by force
  qed
  from absent assms(2) have missing: "get_session (fst (run evs init)) sid = NotFound"
    by (rule get_session_absent)
  show ?thesis
  proof (cases "sid = []")
    case True
    with missing show ?thesis
      by (simp add: chat_handler_def js_not_def)
  next
    case False
    with missing assms(3) show ?thesis
      by (simp add: chat_handler_lookup)
  qed
qed

theorem unknown_session_rejected_witness:
  "''bogus-id'' \<notin> fst ` set (created
     [Upload (Some ''%PDF-1.4'') (Resolved \<lparr>pdf_text = ''Lease Agreement between A and B...''\<rparr>)
        ''8c5fb679-6b1c-4d27-9f3a-0a4e1d2c3b4f'' (Resolved \<lparr>choices = Some [Some ''Summary.'']\<rparr>)]) \<and>
   ''bogus-id'' \<notin> set object_prototype_keys \<and>
   chat_handler (Some ''bogus-id'') (Some ''What is the rent?'')
     (Resolved \<lparr>choices = Some [Some ''The rent is 500.'']\<rparr>)
     (fst (run
        [Upload (Some ''%PDF-1.4'') (Resolved \<lparr>pdf_text = ''Lease Agreement between A and B...''\<rparr>)
           ''8c5fb679-6b1c-4d27-9f3a-0a4e1d2c3b4f'' (Resolved \<lparr>choices = Some [Some ''Summary.'']\<rparr>)]
        init)) =
   (fst (run
        [Upload (Some ''%PDF-1.4'') (Resolved \<lparr>pdf_text = ''Lease Agreement between A and B...''\<rparr>)
           ''8c5fb679-6b1c-4d27-9f3a-0a4e1d2c3b4f'' (Resolved \<lparr>choices = Some [Some ''Summary.'']\<rparr>)]
        init),
    session_missing_reply, [])"
proof -
  have unknown: "''bogus-id'' \<notin> fst ` set (created
     [Upload (Some ''%PDF-1.4'') (Resolved \<lparr>pdf_text = ''Lease Agreement between A and B...''\<rparr>)
        ''8c5fb679-6b1c-4d27-9f3a-0a4e1d2c3b4f'' (Resolved \<lparr>choices = Some [Some ''Summary.'']\<rparr>)])"
    by simp
  have own: "''bogus-id'' \<notin> set object_prototype_keys"
    by (simp add: object_prototype_keys_def)
  have asked: "''What is the rent?'' \<noteq> []"
    by simp
  from unknown_session_rejected [OF unknown own asked,
      of "Resolved \<lparr>choices = Some [Some ''The rent is 500.'']\<rparr>"] unknown own
  show ?thesis by simp
qed

text \<open>
  The claim as stated fails for the empty session id, which \<^verbatim>\<open>if (!sessionId || !question)\<close>
  rejects with 400 before the store is read.
\<close>

theorem empty_session_id_counterexample:
  "'''' \<notin> fst ` set (created []) \<and>
   chat_handler (Some '''') (Some ''What is the rent?'')
     (Resolved \<lparr>choices = Some [Some ''The rent is 500.'']\<rparr>) init =
   (init, \<lparr>status = 400, body = [(''error'', ''Session ID and question are required.'')]\<rparr>, []) \<and>
   \<lparr>status = 400, body = [(''error'', ''Session ID and question are required.'')]\<rparr> \<noteq>
     session_missing_reply"
  by (simp add: chat_handler_def js_not_def required_reply_def session_missing_reply_def)

text \<open>
  A name the store inherits from \<^verbatim>\<open>Object.prototype\<close> is outside the statement above:
  \<^verbatim>\<open>documentContextStore["constructor"]\<close> is a function, which is truthy, so the request goes
  to the provider with the function's source text as the document.
\<close>

lemma inherited_name_reaches_provider:
  "chat_handler (Some ''constructor'') (Some ''What is the rent?'')
     (Resolved \<lparr>choices = Some [Some ''The rent is 500.'']\<rparr>) init =
   (init, \<lparr>status = 200, body = [(''message'', ''The rent is 500.'')]\<rparr>,
    [followup_request (JInherited ''constructor'') ''What is the rent?''])"
  by (simp add: chat_handler_def js_not_def js_get_def truthy_def init_def
      object_prototype_keys_def getFollowUpAIResponse_def first_content_def js_or_def Let_def)




text \<open>
  Claim C8. A lookup through \<^verbatim>\<open>/api/chat\<close>, whatever the session id, the question and the
  outcome of the answering call, leaves the server's state as it was: the store, the pending
  timers with the instants they are due, and the clock. So does any number of lookups.
\<close>

theorem lookup_is_side_effect_free:
  "state_after (chat_handler sessionId question create s) = s \<and>
   (list_all is_chat evs \<longrightarrow> fst (run evs s) = s)"
  by (simp add: chat_handler_state run_chats_state)

theorem lookup_is_side_effect_free_witness:
  "list_all is_chat
     [Chat (Some ''8c5fb679-6b1c-4d27-9f3a-0a4e1d2c3b4f'') (Some ''What is the rent?'')
        (Resolved \<lparr>choices = Some [Some ''The rent is 500.'']\<rparr>),
      Chat (Some ''bogus-id'') (Some ''What is the rent?'')
        (Rejected \<lparr>message = Some ''Connection error.''\<rparr>)] \<and>
   fst (run
     [Chat (Some ''8c5fb679-6b1c-4d27-9f3a-0a4e1d2c3b4f'') (Some ''What is the rent?'')
        (Resolved \<lparr>choices = Some [Some ''The rent is 500.'']\<rparr>),
      Chat (Some ''bogus-id'') (Some ''What is the rent?'')
        (Rejected \<lparr>message = Some ''Connection error.''\<rparr>)]
     (state_after (upload_handler (Some ''%PDF-1.4'')
        (Resolved \<lparr>pdf_text = ''Lease Agreement between A and B...''\<rparr>)
        ''8c5fb679-6b1c-4d27-9f3a-0a4e1d2c3b4f''
        (Resolved \<lparr>choices = Some [Some ''Summary.'']\<rparr>) init))) =
   state_after (upload_handler (Some ''%PDF-1.4'')
        (Resolved \<lparr>pdf_text = ''Lease Agreement between A and B...''\<rparr>)
        ''8c5fb679-6b1c-4d27-9f3a-0a4e1d2c3b4f''
        (Resolved \<lparr>choices = Some [Some ''Summary.'']\<rparr>) init)"
proof -
  have chats: "list_all is_chat
     [Chat (Some ''8c5fb679-6b1c-4d27-9f3a-0a4e1d2c3b4f'') (Some ''What is the rent?'')
        (Resolved \<lparr>choices = Some [Some ''The rent is 500.'']\<rparr>),
      Chat (Some ''bogus-id'') (Some ''What is the rent?'')
        (Rejected \<lparr>message = Some ''Connection error.''\<rparr>)]"
    by simp
  from lookup_is_side_effect_free [THEN conjunct2, rule_format, OF chats] chats
  show ?thesis by blast
qed

text \<open>
  Claim C9. Expiring a session twice is expiring it once, and expiring a session the store
  does not hold changes nothing.
\<close>

theorem expire_idempotent:
  "expire sessionId (expire sessionId s) = expire sessionId s \<and>
   (documentContextStore s sessionId = None \<longrightarrow> expire sessionId s = s)"
proof
  show "expire sessionId (expire sessionId s) = expire sessionId s"
    by (simp add: expire_def js_delete_def)
next
  show "documentContextStore s sessionId = None \<longrightarrow> expire sessionId s = s"
  proof
    assume absent: "documentContextStore s sessionId = None"
    then have "(documentContextStore s)(sessionId := None) = documentContextStore s"
      by (simp add: fun_upd_idem)
    then show "expire sessionId s = s"
      by (simp add: expire_def js_delete_def)
  qed
qed

theorem expire_idempotent_witness:
  "documentContextStore (expire ''8c5fb679-6b1c-4d27-9f3a-0a4e1d2c3b4f'' init)
     ''8c5fb679-6b1c-4d27-9f3a-0a4e1d2c3b4f'' = None \<and>
   expire ''8c5fb679-6b1c-4d27-9f3a-0a4e1d2c3b4f''
     (expire ''8c5fb679-6b1c-4d27-9f3a-0a4e1d2c3b4f'' init) =
   expire ''8c5fb679-6b1c-4d27-9f3a-0a4e1d2c3b4f'' init"
proof -
  have gone: "documentContextStore (expire ''8c5fb679-6b1c-4d27-9f3a-0a4e1d2c3b4f'' init)
     ''8c5fb679-6b1c-4d27-9f3a-0a4e1d2c3b4f'' = None"
    by (simp add: expire_def js_delete_def)
  from expire_idempotent
    [of "''8c5fb679-6b1c-4d27-9f3a-0a4e1d2c3b4f''"
        "expire ''8c5fb679-6b1c-4d27-9f3a-0a4e1d2c3b4f'' init"] gone
  show ?thesis by blast
qed

section \<open>Failures during an upload\<close>

text \<open>
  Claim C5, as the code has it. When \<^verbatim>\<open>pdf(req.file.buffer)\<close> rejects, the state is left
  as it was, no request is sent, and every lookup answers as before. The reply is the 400
  "corrupted, re-save and try again" when the error's message contains \<^verbatim>\<open>xref\<close> in any
  letter case, and the 500 "Failed to process the PDF file." otherwise.
\<close>

theorem extraction_failure_no_session:
  "upload_handler (Some buffer) (Rejected error) uuid create s =
     (s, if mentions_xref error then corrupted_reply else failed_reply, []) \<and>
   get_session (state_after (upload_handler (Some buffer) (Rejected error) uuid create s)) sid =
     get_session s sid"
  by (simp add: upload_handler_def upload_catch_def)

theorem extraction_failure_no_session_witness:
  "mentions_xref \<lparr>message = Some ''bad XRef entry''\<rparr> \<and>
   upload_handler (Some ''%PDF-1.4'') (Rejected \<lparr>message = Some ''bad XRef entry''\<rparr>)
     ''8c5fb679-6b1c-4d27-9f3a-0a4e1d2c3b4f'' (Resolved \<lparr>choices = Some [Some ''Summary.'']\<rparr>) init =
   (init, corrupted_reply, [])"
proof -
  have xref: "mentions_xref \<lparr>message = Some ''bad XRef entry''\<rparr>"
    by (simp add: mentions_xref_def toLowerCase_def)
  from extraction_failure_no_session [of "''%PDF-1.4''" "\<lparr>message = Some ''bad XRef entry''\<rparr>"
      "''8c5fb679-6b1c-4d27-9f3a-0a4e1d2c3b4f''" "Resolved \<lparr>choices = Some [Some ''Summary.'']\<rparr>"
      init] xref
  show ?thesis by simp
qed

text \<open>
  The claim as stated fails for an extraction error whose message does not mention
  \<^verbatim>\<open>xref\<close>: the reply is the generic 500, not the advice to re-save.
\<close>

theorem extraction_failure_generic_counterexample:
  "\<not> mentions_xref \<lparr>message = Some ''Invalid PDF structure''\<rparr> \<and>
   upload_handler (Some ''not a pdf'') (Rejected \<lparr>message = Some ''Invalid PDF structure''\<rparr>)
     ''8c5fb679-6b1c-4d27-9f3a-0a4e1d2c3b4f'' (Resolved \<lparr>choices = Some [Some ''Summary.'']\<rparr>) init =
   (init, \<lparr>status = 500, body = [(''error'', ''Failed to process the PDF file.'')]\<rparr>, []) \<and>
   \<lparr>status = 500, body = [(''error'', ''Failed to process the PDF file.'')]\<rparr> \<noteq> corrupted_reply"
  by (simp add: upload_handler_def upload_catch_def mentions_xref_def toLowerCase_def
      failed_reply_def corrupted_reply_def)

text \<open>
  Claim C10. When the file parses and the analysis call then fails, the reply is an error
  (400 or 500) without a session id, yet the store holds the text under the new id and its
  timer is pending. With an id no older timer names, the entry stays until 30 minutes have
  passed, and is gone from then on.
\<close>

theorem upload_session_not_rolled_back:
  assumes "groq_failed create"
  shows "map_of (body (reply_of (upload_handler (Some buffer) (Resolved data) uuid create s)))
           ''sessionId'' = None \<and>
         status (reply_of (upload_handler (Some buffer) (Resolved data) uuid create s)) \<in> {400, 500} \<and>
         documentContextStore (state_after (upload_handler (Some buffer) (Resolved data) uuid create s)) =
           js_set (documentContextStore s) uuid (pdf_text data) \<and>
         timers (state_after (upload_handler (Some buffer) (Resolved data) uuid create s)) =
           timers s @ [(now s + SESSION_TTL, uuid)] \<and>
         (is_uuid uuid \<and> uuid \<notin> snd ` set (timers s) \<longrightarrow>
            (\<forall>dt < SESSION_TTL.
               documentContextStore
                 (elapse dt (state_after (upload_handler (Some buffer) (Resolved data) uuid create s)))
                 uuid = Some (pdf_text data)) \<and>
            (\<forall>dt \<ge> SESSION_TTL.
               documentContextStore
                 (elapse dt (state_after (upload_handler (Some buffer) (Resolved data) uuid create s)))
                 uuid = None))"
proof -
  let ?r = "upload_handler (Some buffer) (Resolved data) uuid create s"
  from getInitialAIAnalysis_failed [OF assms]
  obtain error where thrown: "fst (getInitialAIAnalysis (pdf_text data) create) = Inl error"
    by blast
  then have reply: "reply_of ?r = upload_catch error"
    by (simp add: upload_handler_parsed)
  have store: "documentContextStore (state_after ?r) =
      js_set (documentContextStore s) uuid (pdf_text data)"
    and pending: "timers (state_after ?r) = timers s @ [(now s + SESSION_TTL, uuid)]"
    and clock: "now (state_after ?r) = now s"
    by (simp_all add: upload_handler_parsed)
  have kept: "documentContextStore (elapse dt (state_after ?r)) uuid = Some (pdf_text data)"
    if "is_uuid uuid" "uuid \<notin> snd ` set (timers s)" "dt < SESSION_TTL" for dt
  proof -
    have "\<not> (\<exists>t. (t, uuid) \<in> set (timers (state_after ?r)) \<and> t \<le> now (state_after ?r) + dt)"
      using that by (force simp: pending clock)
    then show ?thesis
      using that(1) by (simp add: elapse_store store js_set_uuid)
  qed
  have gone: "documentContextStore (elapse dt (state_after ?r)) uuid = None"
    if "SESSION_TTL \<le> dt" for dt
  proof -
    have "(now s + SESSION_TTL, uuid) \<in> set (timers (state_after ?r)) \<and>
        now s + SESSION_TTL \<le> now (state_after ?r) + dt"
      using that by (simp add: pending clock)
    then show ?thesis
      unfolding elapse_store by (meson)
  qed
  show ?thesis
    using reply store pending kept gone upload_catch_no_session [of error]
      upload_catch_status [of error]
    by simp
qed

theorem upload_session_not_rolled_back_witness:
  "groq_failed (Rejected \<lparr>message = Some ''Connection error.''\<rparr>) \<and>
   map_of (body (reply_of (upload_handler (Some ''%PDF-1.4'')
       (Resolved \<lparr>pdf_text = ''Lease Agreement between A and B...''\<rparr>)
       ''8c5fb679-6b1c-4d27-9f3a-0a4e1d2c3b4f''
       (Rejected \<lparr>message = Some ''Connection error.''\<rparr>) init))) ''sessionId'' = None \<and>
   documentContextStore (state_after (upload_handler (Some ''%PDF-1.4'')
       (Resolved \<lparr>pdf_text = ''Lease Agreement between A and B...''\<rparr>)
       ''8c5fb679-6b1c-4d27-9f3a-0a4e1d2c3b4f''
       (Rejected \<lparr>message = Some ''Connection error.''\<rparr>) init))
     ''8c5fb679-6b1c-4d27-9f3a-0a4e1d2c3b4f'' = Some ''Lease Agreement between A and B...'' \<and>
   timers (state_after (upload_handler (Some ''%PDF-1.4'')
       (Resolved \<lparr>pdf_text = ''Lease Agreement between A and B...''\<rparr>)
       ''8c5fb679-6b1c-4d27-9f3a-0a4e1d2c3b4f''
       (Rejected \<lparr>message = Some ''Connection error.''\<rparr>) init)) =
     [(1800000, ''8c5fb679-6b1c-4d27-9f3a-0a4e1d2c3b4f'')]"
proof -
  have failed: "groq_failed (Rejected \<lparr>message = Some ''Connection error.''\<rparr>)"
    by (simp add: groq_failed_def)
  from upload_session_not_rolled_back [OF failed, of "''%PDF-1.4''"
      "\<lparr>pdf_text = ''Lease Agreement between A and B...''\<rparr>"
      "''8c5fb679-6b1c-4d27-9f3a-0a4e1d2c3b4f''" init] failed
  show ?thesis
    by (simp add: js_set_def init_def SESSION_TTL_def)
qed

end
